theory Spec2Isabelle
  imports Complex_Main
begin

section \<open>The Bluebox Blocks driver (libcloud/drivers/bluebox.py)\<close>

text \<open>
  The driver is Python 2 code (\<^verbatim>\<open>base64.b64encode\<close> applied to a \<^verbatim>\<open>str\<close>,
  \<^verbatim>\<open>simplejson\<close> as a fallback). The embedding follows the module top to bottom:
  the values Python computes with, the names the module binds, the response class, the
  connection class and the node driver. Every exception the source can raise is a value
  of \<open>error\<close>, and a method that can raise returns \<open>error + 'a\<close>.
\<close>

subsection \<open>Python values and exceptions\<close>

text \<open>
  Modelled from the spec: \<^verbatim>\<open>libcloud.types.NodeState\<close> is imported by the driver and is
  not part of the source at hand. Section 3 of the specification gives the normalized
  lifecycle enum as PENDING, RUNNING, TERMINATED, UNKNOWN.
\<close>

datatype NodeState = PENDING | RUNNING | TERMINATED | UNKNOWN

text \<open>
  The values that flow through the driver: what \<^verbatim>\<open>json.loads\<close> returns (\<^verbatim>\<open>None\<close>,
  booleans, integers, floats, strings, lists, dictionaries with string keys), members
  of \<open>NodeState\<close>, and objects the driver only names (classes and modules,
  \<open>PyObject\<close> with the name). A dictionary is an association list whose lookup is
  \<open>map_of\<close>. A float is the rational its literal denotes: the driver copies floats
  and never rounds one.
\<close>

datatype pyval =
    PyNone
  | PyBool bool
  | PyInt int
  | PyFloat rat
  | PyStr string
  | PyList "pyval list"
  | PyDict "(string \<times> pyval) list"
  | PyState NodeState
  | PyObject string

datatype error =
    InvalidCredsError string
  | KeyError string
  | NameError string
  | TypeError
  | AttributeError
  | ZeroDivisionError
  | TransportFailure

text \<open>\<^verbatim>\<open>v[key]\<close> for a string key: only a dictionary can be subscripted by a string.\<close>

fun getitem :: "pyval \<Rightarrow> string \<Rightarrow> error + pyval" where
  "getitem (PyDict d) k = (case map_of d k of None \<Rightarrow> Inl (KeyError k) | Some v \<Rightarrow> Inr v)"
| "getitem v k = Inl TypeError"

text \<open>
  \<^verbatim>\<open>for i in v\<close>: a list yields its elements, a dictionary its keys, a string its
  characters as one-character strings; nothing else is iterable.
\<close>

fun py_iter :: "pyval \<Rightarrow> error + pyval list" where
  "py_iter (PyList xs) = Inr xs"
| "py_iter (PyDict d) = Inr (map (\<lambda>kv. PyStr (fst kv)) d)"
| "py_iter (PyStr s) = Inr (map (\<lambda>c. PyStr [c]) s)"
| "py_iter v = Inl TypeError"

text \<open>Truth value of a Python value (\<^verbatim>\<open>if v:\<close>).\<close>

fun truthy :: "pyval \<Rightarrow> bool" where
  "truthy PyNone = False"
| "truthy (PyBool b) = b"
| "truthy (PyInt i) = (i \<noteq> 0)"
| "truthy (PyFloat r) = (r \<noteq> 0)"
| "truthy (PyStr s) = (s \<noteq> [])"
| "truthy (PyList xs) = (xs \<noteq> [])"
| "truthy (PyDict d) = (d \<noteq> [])"
| "truthy (PyState s) = True"
| "truthy (PyObject n) = True"

text \<open>
  \<^verbatim>\<open>a / b\<close> in Python 2: floor division on integers (a boolean counts as 0 or 1), true
  division as soon as one operand is a float, \<^verbatim>\<open>TypeError\<close> on anything else.
\<close>

fun as_int :: "pyval \<Rightarrow> int option" where
  "as_int (PyInt i) = Some i"
| "as_int (PyBool b) = Some (if b then 1 else 0)"
| "as_int v = None"

fun as_number :: "pyval \<Rightarrow> rat option" where
  "as_number (PyFloat r) = Some r"
| "as_number v = map_option of_int (as_int v)"

definition py_div :: "pyval \<Rightarrow> pyval \<Rightarrow> error + pyval" where
  "py_div a b =
     (case (as_int a, as_int b) of
        (Some x, Some y) \<Rightarrow> if y = 0 then Inl ZeroDivisionError else Inr (PyInt (x div y))
      | _ \<Rightarrow>
        (case (as_number a, as_number b) of
           (Some x, Some y) \<Rightarrow> if y = 0 then Inl ZeroDivisionError else Inr (PyFloat (x / y))
         | _ \<Rightarrow> Inl TypeError))"

text \<open>\<^verbatim>\<open>str(n)\<close> for an integer: its decimal numeral.\<close>

definition digit :: "nat \<Rightarrow> char" where
  "digit d = ''0123456789'' ! d"

fun str_nat :: "nat \<Rightarrow> string" where
  "str_nat n = (if n < 10 then [digit n] else str_nat (n div 10) @ [digit (n mod 10)])"

definition str_int :: "int \<Rightarrow> string" where
  "str_int i = (if i < 0 then CHR ''-'' # str_nat (nat (- i)) else str_nat (nat i))"

subsection \<open>The names the module binds\<close>

text \<open>
  A Python module is executed top to bottom and every assignment, import and class
  statement binds a name in the module's namespace; a later binding of a name replaces
  the earlier one. The methods of the driver run after the whole module has been
  executed, so a global name read inside a method has the value of its last binding,
  and a name that no statement binds raises \<^verbatim>\<open>NameError\<close> (none of the names read below
  is a builtin).
\<close>

type_synonym bindings = "(string \<times> pyval) list"

definition load_global :: "bindings \<Rightarrow> string \<Rightarrow> error + pyval" where
  "load_global bs n = (case map_of (rev bs) n of None \<Rightarrow> Inl (NameError n) | Some v \<Rightarrow> Inr v)"

text \<open>The catalog literal of lines 35 to 68.\<close>

definition instance_types_literal :: pyval where
  "instance_types_literal = PyDict
     [(''1gb'', PyDict
         [(''id'', PyStr ''94fd37a7-2606-47f7-84d5-9000deda52ae''),
          (''name'', PyStr ''Block 1GB Virtual Server''),
          (''ram'', PyInt 1024),
          (''disk'', PyInt 20),
          (''cpu'', PyFloat 0.5),
          (''cost'', PyFloat 0.15)]),
      (''2gb'', PyDict
         [(''id'', PyStr ''b412f354-5056-4bf0-a42f-6ddd998aa092''),
          (''name'', PyStr ''Block 2GB Virtual Server''),
          (''ram'', PyInt 2048),
          (''disk'', PyInt 25),
          (''cpu'', PyInt 1),
          (''cost'', PyFloat 0.25)]),
      (''4gb'', PyDict
         [(''id'', PyStr ''0cd183d3-0287-4b1a-8288-b3ea8302ed58''),
          (''name'', PyStr ''Block 4GB Virtual Server''),
          (''ram'', PyInt 4096),
          (''disk'', PyInt 50),
          (''cpu'', PyInt 2),
          (''cost'', PyFloat 0.35)]),
      (''8gb'', PyDict
         [(''id'', PyStr ''b9b87a5b-2885-4a2e-b434-44a163ca6251''),
          (''name'', PyStr ''Block 8GB Virtual Server''),
          (''ram'', PyInt 8192),
          (''disk'', PyInt 100),
          (''cpu'', PyInt 4),
          (''cost'', PyFloat 0.45)])]"

text \<open>
  The bindings of the module in source order: the imports (lines 19 to 28), the API
  host (line 30), the catalog (line 35), the two classes of lines 70 and 99, the second
  assignment to \<^verbatim>\<open>BLUEBOX_INSTANCE_TYPES\<close> (line 113), \<^verbatim>\<open>RAM_PER_CPU\<close> (line 114),
  the state map (lines 116 to 120) and the driver class (line 122).
\<close>

definition bluebox_module :: bindings where
  "bluebox_module =
     [(''Provider'', PyObject ''Provider''),
      (''NodeState'', PyObject ''NodeState''),
      (''InvalidCredsError'', PyObject ''InvalidCredsError''),
      (''Node'', PyObject ''Node''),
      (''Response'', PyObject ''Response''),
      (''ConnectionUserAndKey'', PyObject ''ConnectionUserAndKey''),
      (''NodeDriver'', PyObject ''NodeDriver''),
      (''NodeSize'', PyObject ''NodeSize''),
      (''NodeImage'', PyObject ''NodeImage''),
      (''NodeLocation'', PyObject ''NodeLocation''),
      (''datetime'', PyObject ''datetime''),
      (''hashlib'', PyObject ''hashlib''),
      (''base64'', PyObject ''base64''),
      (''json'', PyObject ''json''),
      (''BLUEBOX_API_HOST'', PyStr ''boxpanel.blueboxgrp.com''),
      (''BLUEBOX_INSTANCE_TYPES'', instance_types_literal),
      (''BlueboxResponse'', PyObject ''BlueboxResponse''),
      (''BlueboxConnection'', PyObject ''BlueboxConnection''),
      (''BLUEBOX_INSTANCE_TYPES'', PyDict []),
      (''RAM_PER_CPU'', PyInt 2048),
      (''NODE_STATE_MAP'', PyDict
         [(''queued'', PyState PENDING),
          (''building'', PyState PENDING),
          (''running'', PyState RUNNING),
          (''error'', PyState TERMINATED),
          (''unknown'', PyState UNKNOWN)]),
      (''BlueboxNodeDriver'', PyObject ''BlueboxNodeDriver'')]"

subsection \<open>Collaborators outside the repository\<close>

text \<open>
  What the transport hands back for one request (section 6 of the specification): the
  status code, the body and the error text (the reason phrase).
\<close>

record http_response =
  status :: int
  body :: string
  error :: string

record http_request =
  req_path :: string
  req_method :: string
  req_data :: "string option"
  req_headers :: "(string \<times> string) list"

text \<open>
  The functions of the Python standard library the driver calls, and the transport, are
  parameters of the model: \<^verbatim>\<open>base64.b64encode\<close>, \<^verbatim>\<open>json.loads\<close> (\<open>None\<close> when it
  raises \<^verbatim>\<open>ValueError\<close>), \<^verbatim>\<open>json.dumps\<close>, and the exchange of one request for one
  response, which fails with an error of its own when the network does.
\<close>

record externals =
  b64encode :: "string \<Rightarrow> string"
  json_loads :: "string \<Rightarrow> pyval option"
  json_dumps :: "pyval \<Rightarrow> error + string"
  transport :: "http_request \<Rightarrow> error + http_response"

subsection \<open>BlueboxResponse\<close>

text \<open>
  \<^verbatim>\<open>parse_body\<close> (lines 76 to 81): the decoded body, or the body itself when decoding
  raises \<^verbatim>\<open>ValueError\<close>.
\<close>

definition parse_body :: "externals \<Rightarrow> http_response \<Rightarrow> pyval" where
  "parse_body ext r = (case json_loads ext (body r) of Some js \<Rightarrow> js | None \<Rightarrow> PyStr (body r))"

text \<open>
  \<^verbatim>\<open>parse_error\<close> (lines 83 to 89). \<^verbatim>\<open>int(self.status)\<close> is the status itself, the
  transport giving an integer; \<^verbatim>\<open>not self.body\<close> holds of the empty string only.
\<close>

definition parse_error :: "http_response \<Rightarrow> error + string" where
  "parse_error r =
     (if status r = 401 then
        (if body r = [] then Inl (InvalidCredsError (str_int (status r) @ '': '' @ error r))
         else Inl (InvalidCredsError (body r)))
      else Inr (body r))"

text \<open>
  Modelled from the spec: the base class \<^verbatim>\<open>Response\<close> of \<^verbatim>\<open>libcloud.base\<close>, whose
  constructor decides between \<^verbatim>\<open>parse_body\<close> and \<^verbatim>\<open>parse_error\<close>, is not part of the
  source at hand. Section 4.1 of the specification: given the status code, the body and
  the error text, the interpreter produces a decoded payload or fails with a classified
  error; status 401 fails with InvalidCredentials, and every other non-success status
  returns the body as the payload rather than raising. The one status the specification
  names a success is 200.
\<close>

record Response =
  resp_status :: int
  resp_body :: string
  resp_error :: string
  object :: pyval

definition success :: "http_response \<Rightarrow> bool" where
  "success r = (status r = 200)"

definition Response_init :: "externals \<Rightarrow> http_response \<Rightarrow> error + Response" where
  "Response_init ext r =
     (if success r then
        Inr \<lparr>resp_status = status r, resp_body = body r, resp_error = error r,
             object = parse_body ext r\<rparr>
      else
        (case parse_error r of
           Inl e \<Rightarrow> Inl e
         | Inr payload \<Rightarrow>
             Inr \<lparr>resp_status = status r, resp_body = body r, resp_error = error r,
                  object = PyStr payload\<rparr>))"

subsection \<open>BlueboxConnection\<close>

record connection =
  user_id :: string
  key :: string
  driver :: nat

text \<open>
  \<^verbatim>\<open>add_default_headers\<close> (lines 108 to 111). The header dictionary is an association
  list; the assignment \<^verbatim>\<open>headers['Authorization'] = ...\<close> replaces the value of the key
  where it is present and adds the key otherwise.
\<close>

fun setitem :: "(string \<times> 'v) list \<Rightarrow> string \<Rightarrow> 'v \<Rightarrow> (string \<times> 'v) list" where
  "setitem [] k v = [(k, v)]"
| "setitem (p # ps) k v = (if fst p = k then (k, v) # ps else p # setitem ps k v)"

definition add_default_headers ::
  "externals \<Rightarrow> connection \<Rightarrow> (string \<times> string) list \<Rightarrow> (string \<times> string) list" where
  "add_default_headers ext c headers =
     (let user_b64 = b64encode ext (user_id c @ '':'' @ key c)
      in setitem headers ''Authorization'' (''Basic '' @ user_b64))"

text \<open>
  Modelled from the spec: the method \<^verbatim>\<open>request\<close> of the base connection class
  (\<^verbatim>\<open>libcloud.base.ConnectionUserAndKey\<close>) is not part of the source at hand. Section 4.2
  of the specification: every outgoing request is decorated with the authentication
  header before it is given to the transport; a failure of the transport propagates
  unmodified; the response is always routed through the response interpreter. The
  result is paired with the requests put on the wire.
\<close>

definition request ::
  "externals \<Rightarrow> connection \<Rightarrow> string \<Rightarrow> string option \<Rightarrow> (string \<times> string) list \<Rightarrow> string
     \<Rightarrow> (error + Response) \<times> http_request list" where
  "request ext c action data headers method =
     (let rq = \<lparr>req_path = action, req_method = method, req_data = data,
                req_headers = add_default_headers ext c headers\<rparr>
      in (case transport ext rq of
            Inl e \<Rightarrow> Inl e
          | Inr r \<Rightarrow> Response_init ext r,
          [rq]))"

subsection \<open>The domain types\<close>

text \<open>
  Modelled from the spec: the classes \<^verbatim>\<open>Node\<close> and \<^verbatim>\<open>NodeSize\<close> of \<^verbatim>\<open>libcloud.base\<close>
  are not part of the source at hand. Sections 3 and 6 of the specification: they are
  value constructors over the field sets of section 3, a normalized node with id,
  name, lifecycle state, public and private IP lists, extra attributes and the owning
  driver, and a size with unique id, display name, RAM, disk, virtual CPU count and
  hourly cost. A constructor called with a keyword it does not know, or without one it
  needs, raises \<^verbatim>\<open>TypeError\<close>, as every Python call does.
\<close>

record Node =
  node_id :: pyval
  node_name :: pyval
  state :: NodeState
  public_ip :: "pyval list"
  private_ip :: "pyval list"
  extra :: "(string \<times> pyval) list"
  node_driver :: nat

record NodeSize =
  size_id :: pyval
  size_name :: pyval
  ram :: pyval
  disk :: pyval
  cpu :: pyval
  cost :: pyval
  size_driver :: nat

definition kwarg :: "(string \<times> pyval) list \<Rightarrow> string \<Rightarrow> error + pyval" where
  "kwarg kw k = (case map_of kw k of None \<Rightarrow> Inl TypeError | Some v \<Rightarrow> Inr v)"

definition NodeSize_init :: "nat \<Rightarrow> pyval \<Rightarrow> error + NodeSize" where
  "NodeSize_init drv i =
     (case i of
        PyDict kw \<Rightarrow>
          if list_all (\<lambda>k. k \<in> set [''id'', ''name'', ''ram'', ''disk'', ''cpu'', ''cost''])
               (map fst kw)
          then
            (case kwarg kw ''id'' of Inl e \<Rightarrow> Inl e | Inr v_id \<Rightarrow>
            (case kwarg kw ''name'' of Inl e \<Rightarrow> Inl e | Inr v_name \<Rightarrow>
            (case kwarg kw ''ram'' of Inl e \<Rightarrow> Inl e | Inr v_ram \<Rightarrow>
            (case kwarg kw ''disk'' of Inl e \<Rightarrow> Inl e | Inr v_disk \<Rightarrow>
            (case kwarg kw ''cpu'' of Inl e \<Rightarrow> Inl e | Inr v_cpu \<Rightarrow>
            (case kwarg kw ''cost'' of Inl e \<Rightarrow> Inl e | Inr v_cost \<Rightarrow>
               Inr \<lparr>size_id = v_id, size_name = v_name, ram = v_ram, disk = v_disk,
                    cpu = v_cpu, cost = v_cost, size_driver = drv\<rparr>))))))
          else Inl TypeError
      | _ \<Rightarrow> Inl TypeError)"

subsection \<open>BlueboxNodeDriver\<close>

text \<open>A list comprehension \<^verbatim>\<open>[f(i) for i in xs]\<close>: the first exception ends it.\<close>

fun comprehension :: "('a \<Rightarrow> error + 'b) \<Rightarrow> 'a list \<Rightarrow> error + 'b list" where
  "comprehension f [] = Inr []"
| "comprehension f (x # xs) =
     (case f x of
        Inl e \<Rightarrow> Inl e
      | Inr y \<Rightarrow> (case comprehension f xs of Inl e \<Rightarrow> Inl e | Inr ys \<Rightarrow> Inr (y # ys)))"

text \<open>\<^verbatim>\<open>d.values()\<close>: only a dictionary has the method.\<close>

fun dict_values :: "pyval \<Rightarrow> error + pyval list" where
  "dict_values (PyDict d) = Inr (map snd d)"
| "dict_values v = Inl AttributeError"

text \<open>
  \<^verbatim>\<open>_to_node\<close> (lines 185 to 198); an Isabelle name cannot start with an underscore.
  The subscriptions are evaluated in the order of the source: status, then the
  keyword arguments of \<^verbatim>\<open>Node\<close> from left to right.
\<close>

definition to_node :: "nat \<Rightarrow> pyval \<Rightarrow> error + Node" where
  "to_node drv vm =
     (case getitem vm ''status'' of Inl e \<Rightarrow> Inl e | Inr v_status \<Rightarrow>
     (let st = (if v_status = PyStr ''running'' then RUNNING else PENDING) in
     (case getitem vm ''id'' of Inl e \<Rightarrow> Inl e | Inr v_id \<Rightarrow>
     (case getitem vm ''hostname'' of Inl e \<Rightarrow> Inl e | Inr v_hostname \<Rightarrow>
     (case getitem vm ''ips'' of Inl e \<Rightarrow> Inl e | Inr v_ips \<Rightarrow>
     (case py_iter v_ips of Inl e \<Rightarrow> Inl e | Inr ips \<Rightarrow>
     (case comprehension (\<lambda>i. getitem i ''address'') ips of Inl e \<Rightarrow> Inl e | Inr addrs \<Rightarrow>
     (case getitem vm ''storage'' of Inl e \<Rightarrow> Inl e | Inr v_storage \<Rightarrow>
     (case getitem vm ''cpu'' of Inl e \<Rightarrow> Inl e | Inr v_cpu \<Rightarrow>
        Inr \<lparr>node_id = v_id, node_name = v_hostname, state = st, public_ip = addrs,
             private_ip = [], extra = [(''storage'', v_storage), (''cpu'', v_cpu)],
             node_driver = drv\<rparr>)))))))))"

text \<open>\<^verbatim>\<open>list_nodes\<close> (lines 131 to 133).\<close>

definition list_nodes :: "externals \<Rightarrow> connection \<Rightarrow> (error + Node list) \<times> http_request list" where
  "list_nodes ext c =
     (case request ext c ''/api/blocks.json'' None [] ''GET'' of
        (Inl e, sent) \<Rightarrow> (Inl e, sent)
      | (Inr result, sent) \<Rightarrow>
          (case py_iter (object result) of
             Inl e \<Rightarrow> Inl e
           | Inr vms \<Rightarrow> comprehension (to_node (driver c)) vms,
           sent))"

text \<open>
  \<^verbatim>\<open>list_sizes\<close> (lines 135 to 137). The name \<^verbatim>\<open>BLUEBOX_INSTANCE_TYPES\<close> is read from
  the module namespace when the method runs; the location is never read.
\<close>

definition list_sizes :: "bindings \<Rightarrow> connection \<Rightarrow> pyval \<Rightarrow> error + NodeSize list" where
  "list_sizes g c location =
     (case load_global g ''BLUEBOX_INSTANCE_TYPES'' of Inl e \<Rightarrow> Inl e | Inr types \<Rightarrow>
     (case dict_values types of Inl e \<Rightarrow> Inl e | Inr vs \<Rightarrow>
        comprehension (NodeSize_init (driver c)) vs))"

text \<open>
  \<^verbatim>\<open>create_node\<close> (lines 147 to 167). The keyword arguments are a record whose field is
  \<open>None\<close> when the caller did not pass the key, so that \<^verbatim>\<open>kwargs["k"]\<close> raises
  \<^verbatim>\<open>KeyError\<close> there. Line 165 reads the name \<^verbatim>\<open>request\<close>, which the body never
  assigns: Python looks it up in the module namespace.
\<close>

record create_kwargs =
  kw_size :: "NodeSize option"
  kw_product :: "pyval option"
  kw_template :: "pyval option"
  kw_password :: "pyval option"
  kw_ssh_key :: "pyval option"
  kw_username :: "pyval option"
  kw_hostname :: "pyval option"

definition create_node ::
  "externals \<Rightarrow> bindings \<Rightarrow> connection \<Rightarrow> create_kwargs \<Rightarrow> (error + Node) \<times> http_request list" where
  "create_node ext g c kwargs =
     (let headers = [(''Content-Type'', ''application/json'')] in
     (case kw_size kwargs of None \<Rightarrow> (Inl (KeyError ''size''), []) | Some sz \<Rightarrow>
     (case load_global g ''RAM_PER_CPU'' of Inl e \<Rightarrow> (Inl e, []) | Inr ram_per_cpu \<Rightarrow>
     (case py_div (ram sz) ram_per_cpu of Inl e \<Rightarrow> (Inl e, []) | Inr cores \<Rightarrow>
     (case kw_product kwargs of None \<Rightarrow> (Inl (KeyError ''product''), []) | Some product \<Rightarrow>
     (case kw_template kwargs of None \<Rightarrow> (Inl (KeyError ''template''), []) | Some template \<Rightarrow>
     (case kw_password kwargs of None \<Rightarrow> (Inl (KeyError ''password''), []) | Some password \<Rightarrow>
     (case kw_ssh_key kwargs of None \<Rightarrow> (Inl (KeyError ''ssh_key''), []) | Some ssh_key \<Rightarrow>
     (case kw_username kwargs of None \<Rightarrow> (Inl (KeyError ''username''), []) | Some username \<Rightarrow>
     (let params = [(''product'', product), (''template'', template),
                    (''password'', password), (''ssh_key'', ssh_key),
                    (''username'', username)];
          params = (if map_of params ''username'' = Some (PyStr [])
                    then setitem params ''username'' (PyStr ''deploy'') else params)
      in
     (case kw_hostname kwargs of None \<Rightarrow> (Inl (KeyError ''hostname''), []) | Some hostname \<Rightarrow>
     (let params = (if truthy hostname then setitem params ''hostname'' hostname else params)
      in
     (case load_global g ''request'' of Inl e \<Rightarrow> (Inl e, []) | Inr v_request \<Rightarrow>
     (case json_dumps ext v_request of Inl e \<Rightarrow> (Inl e, []) | Inr data \<Rightarrow>
     (case request ext c ''/api/blocks.json'' (Some data) headers ''POST'' of
        (Inl e, sent) \<Rightarrow> (Inl e, sent)
      | (Inr result, sent) \<Rightarrow> (to_node (driver c) (object result), sent))))))))))))))))"

text \<open>
  \<^verbatim>\<open>destroy_node\<close> (lines 169 to 175). The path is a Python string literal: the
  characters \<^verbatim>\<open>#{node.id}\<close> are part of it, Python having no interpolation in a plain
  literal.
\<close>

definition destroy_node :: "externals \<Rightarrow> connection \<Rightarrow> Node \<Rightarrow> (error + bool) \<times> http_request list" where
  "destroy_node ext c node =
     (case request ext c ''/api/blocks/#{node.id}.json'' None [] ''DELETE'' of
        (Inl e, sent) \<Rightarrow> (Inl e, sent)
      | (Inr result, sent) \<Rightarrow> (Inr (resp_status result = 200), sent))"

text \<open>
  \<^verbatim>\<open>reboot_node\<close> (lines 180 to 183): the returned body is translated first, and an
  exception of the translation leaves the method.
\<close>

definition reboot_node :: "externals \<Rightarrow> connection \<Rightarrow> Node \<Rightarrow> (error + bool) \<times> http_request list" where
  "reboot_node ext c node =
     (case request ext c ''/api/blocks/#{node.id}/reboot.json'' None [] ''PUT'' of
        (Inl e, sent) \<Rightarrow> (Inl e, sent)
      | (Inr result, sent) \<Rightarrow>
          (case to_node (driver c) (object result) of
             Inl e \<Rightarrow> Inl e
           | Inr node' \<Rightarrow> Inr (resp_status result = 200),
           sent))"

subsection \<open>Stand-ins for the collaborators and sample inputs\<close>

text \<open>
  The theorems below hold for every encoder, decoder and transport. Where one is
  evaluated at a concrete input, these fixed collaborators are used: an encoder that
  returns its argument, a decoder that knows the empty list only, a serializer that writes
  nothing, and a transport that answers every request with the same response.
\<close>

definition plain_b64 :: "string \<Rightarrow> string" where
  "plain_b64 s = s"

definition brackets_only :: "string \<Rightarrow> pyval option" where
  "brackets_only s = (if s = ''[]'' then Some (PyList []) else None)"

definition empty_dumps :: "pyval \<Rightarrow> error + string" where
  "empty_dumps v = Inr []"

definition answer :: "http_response \<Rightarrow> http_request \<Rightarrow> error + http_response" where
  "answer r rq = Inr r"

definition answering :: "http_response \<Rightarrow> externals" where
  "answering r =
     \<lparr>b64encode = plain_b64, json_loads = brackets_only, json_dumps = empty_dumps,
      transport = answer r\<rparr>"

definition sample_connection :: connection where
  "sample_connection = \<lparr>user_id = ''customer'', key = ''secret'', driver = 0\<rparr>"

definition sample_vm :: "string \<Rightarrow> pyval" where
  "sample_vm st = PyDict
     [(''id'', PyStr ''99df878c''),
      (''hostname'', PyStr ''foo.apitest.blueboxgrid.com''),
      (''status'', PyStr st),
      (''ips'', PyList [PyDict [(''address'', PyStr ''67.214.214.212'')],
                        PyDict [(''address'', PyStr ''67.214.214.213'')]]),
      (''storage'', PyInt 20),
      (''cpu'', PyFloat 0.5)]"

definition sample_node :: "string \<Rightarrow> Node" where
  "sample_node i =
     \<lparr>node_id = PyStr i, node_name = PyStr ''foo.apitest.blueboxgrid.com'', state = RUNNING,
      public_ip = [PyStr ''67.214.214.212''], private_ip = [], extra = [],
      node_driver = 0\<rparr>"

section \<open>Properties\<close>

subsection \<open>Names of the module\<close>

lemma instance_types_rebound:
  "load_global bluebox_module ''BLUEBOX_INSTANCE_TYPES'' = Inr (PyDict [])"
  by (simp add: load_global_def bluebox_module_def)

lemma request_unbound:
  "load_global bluebox_module ''request'' = Inl (NameError ''request'')"
  by (simp add: load_global_def bluebox_module_def)

lemma ram_per_cpu_bound:
  "load_global bluebox_module ''RAM_PER_CPU'' = Inr (PyInt 2048)"
  by (simp add: load_global_def bluebox_module_def)

lemma str_int_401: "str_int 401 = ''401''"
  by (simp add: str_int_def digit_def)

lemma map_of_setitem: "map_of (setitem hs k v) = (map_of hs)(k \<mapsto> v)"
  by (induction hs) (auto simp: fun_eq_iff)

subsection \<open>Instance sizes\<close>

text \<open>
  Had line 113 not bound the name again, \<^verbatim>\<open>list_sizes\<close> would return the four sizes
  of the catalog literal, field by field.
\<close>

lemma list_sizes_of_literal:
  "list_sizes [(''BLUEBOX_INSTANCE_TYPES'', instance_types_literal)] c location =
     Inr [\<lparr>size_id = PyStr ''94fd37a7-2606-47f7-84d5-9000deda52ae'',
            size_name = PyStr ''Block 1GB Virtual Server'',
            ram = PyInt 1024, disk = PyInt 20, cpu = PyFloat 0.5, cost = PyFloat 0.15,
            size_driver = driver c\<rparr>,
          \<lparr>size_id = PyStr ''b412f354-5056-4bf0-a42f-6ddd998aa092'',
            size_name = PyStr ''Block 2GB Virtual Server'',
            ram = PyInt 2048, disk = PyInt 25, cpu = PyInt 1, cost = PyFloat 0.25,
            size_driver = driver c\<rparr>,
          \<lparr>size_id = PyStr ''0cd183d3-0287-4b1a-8288-b3ea8302ed58'',
            size_name = PyStr ''Block 4GB Virtual Server'',
            ram = PyInt 4096, disk = PyInt 50, cpu = PyInt 2, cost = PyFloat 0.35,
            size_driver = driver c\<rparr>,
          \<lparr>size_id = PyStr ''b9b87a5b-2885-4a2e-b434-44a163ca6251'',
            size_name = PyStr ''Block 8GB Virtual Server'',
            ram = PyInt 8192, disk = PyInt 100, cpu = PyInt 4, cost = PyFloat 0.45,
            size_driver = driver c\<rparr>]"
  by (simp add: list_sizes_def load_global_def instance_types_literal_def
        NodeSize_init_def kwarg_def)

text \<open>
  C1. The claim: for every location, \<^verbatim>\<open>list_sizes\<close> returns one size per key of the
  instance-size catalog, with the catalog's RAM, disk, CPU and cost. In the module as
  it is, the catalog of lines 35 to 68 is replaced by the empty dictionary of line 113
  before any method runs, and \<^verbatim>\<open>list_sizes\<close> returns the empty list for every
  connection and location.
\<close>

theorem list_sizes_empty:
  "list_sizes bluebox_module c location = Inr []"
  by (simp add: list_sizes_def instance_types_rebound)

subsection \<open>Requests of destroy and reboot\<close>

lemma request_sent:
  "snd (request ext c action data headers method) =
     [\<lparr>req_path = action, req_method = method, req_data = data,
       req_headers = add_default_headers ext c headers\<rparr>]"
  by (simp add: request_def Let_def)

lemma destroy_node_sent:
  "snd (destroy_node ext c node) =
     snd (request ext c ''/api/blocks/#{node.id}.json'' None [] ''DELETE'')"
  by (simp add: destroy_node_def split: prod.splits sum.splits)

lemma reboot_node_sent:
  "snd (reboot_node ext c node) =
     snd (request ext c ''/api/blocks/#{node.id}/reboot.json'' None [] ''PUT'')"
  by (simp add: reboot_node_def split: prod.splits sum.splits)

text \<open>
  C2. The claim: \<^verbatim>\<open>destroy_node\<close> issues a DELETE and \<^verbatim>\<open>reboot_node\<close> a PUT whose path
  is the endpoint of the node, identified by \<^verbatim>\<open>node.id\<close>. In the code both paths are
  fixed texts that contain the characters \<^verbatim>\<open>#{node.id}\<close> as they stand: whatever the
  node, one request is sent, with the method of the claim and the same path.
\<close>

theorem destroy_reboot_path_constant:
  "map req_method (snd (destroy_node ext c node)) = [''DELETE''] \<and>
   map req_path (snd (destroy_node ext c node)) = [''/api/blocks/#{node.id}.json''] \<and>
   map req_method (snd (reboot_node ext c node)) = [''PUT''] \<and>
   map req_path (snd (reboot_node ext c node)) = [''/api/blocks/#{node.id}/reboot.json'']"
  by (simp add: destroy_node_sent reboot_node_sent request_sent)

subsection \<open>Node creation\<close>

text \<open>
  C3. The claim: a \<^verbatim>\<open>create_node\<close> call with the empty username transmits the
  username "deploy", and a non-empty username is transmitted unchanged. In the code
  the dictionary \<^verbatim>\<open>params\<close> is assembled so, but line 165 serializes the name
  \<^verbatim>\<open>request\<close>, which the module never binds: every call ends in an exception and puts
  no request on the wire.
\<close>

theorem create_node_transmits_nothing:
  "snd (create_node ext bluebox_module c kwargs) = [] \<and>
   (\<exists>e. fst (create_node ext bluebox_module c kwargs) = Inl e)"
  by (simp add: create_node_def Let_def request_unbound split: option.splits sum.splits)

text \<open>With every keyword passed and the empty username, the exception is the \<^verbatim>\<open>NameError\<close>.\<close>

lemma create_node_empty_username:
  "create_node (answering \<lparr>status = 200, body = [], error = ''OK''\<rparr>) bluebox_module
     sample_connection
     \<lparr>kw_size = Some \<lparr>size_id = PyStr ''94fd37a7-2606-47f7-84d5-9000deda52ae'',
                       size_name = PyStr ''Block 1GB Virtual Server'',
                       ram = PyInt 1024, disk = PyInt 20, cpu = PyFloat 0.5,
                       cost = PyFloat 0.15, size_driver = 0\<rparr>,
      kw_product = Some (PyStr ''94fd37a7-2606-47f7-84d5-9000deda52ae''),
      kw_template = Some (PyStr ''c66b8145-f768-45ef-9878-395bf8b1b7ff''),
      kw_password = Some (PyStr ''testpass''),
      kw_ssh_key = Some (PyStr []),
      kw_username = Some (PyStr []),
      kw_hostname = Some (PyStr ''foo.apitest.blueboxgrid.com'')\<rparr>
   = (Inl (NameError ''request''), [])"
  by (simp add: create_node_def Let_def request_unbound ram_per_cpu_bound py_div_def)

subsection \<open>Node translation\<close>

lemma comprehension_map:
  "comprehension f xs = Inr ys \<Longrightarrow> map f xs = map Inr ys"
proof (induction xs arbitrary: ys)
  case Nil
  then show ?case by simp
next
  case (Cons x xs)
  then show ?case by (auto split: sum.splits)
qed

lemma comprehension_total:
  "(\<And>x. x \<in> set xs \<Longrightarrow> \<exists>y. f x = Inr y) \<Longrightarrow> \<exists>ys. comprehension f xs = Inr ys"
proof (induction xs)
  case Nil
  then show ?case by simp
next
  case (Cons x xs)
  then obtain y where "f x = Inr y" by force
  moreover from Cons obtain ys where "comprehension f xs = Inr ys" by force
  ultimately show ?case by simp
qed

text \<open>
  A record with the six fields of the wire shape, whose \<^verbatim>\<open>ips\<close> is a list of records
  with an address, is translated: \<^verbatim>\<open>_to_node\<close> raises nothing on it.
\<close>

lemma to_node_accepts:
  assumes "map_of d ''status'' = Some v_status"
    and "map_of d ''id'' = Some v_id"
    and "map_of d ''hostname'' = Some v_hostname"
    and "map_of d ''ips'' = Some (PyList ips)"
    and "\<And>i. i \<in> set ips \<Longrightarrow> \<exists>a. getitem i ''address'' = Inr a"
    and "map_of d ''storage'' = Some v_storage"
    and "map_of d ''cpu'' = Some v_cpu"
  shows "\<exists>n. to_node drv (PyDict d) = Inr n"
proof -
  from assms(5) obtain addrs
    where "comprehension (\<lambda>i. getitem i ''address'') ips = Inr addrs"
    using comprehension_total [of ips "\<lambda>i. getitem i ''address''"] by blast
  with assms(1-4,6,7) show ?thesis
    by (simp add: to_node_def Let_def)
qed

lemma to_node_sample:
  "to_node drv (sample_vm st) =
     Inr \<lparr>node_id = PyStr ''99df878c'', node_name = PyStr ''foo.apitest.blueboxgrid.com'',
          state = (if st = ''running'' then RUNNING else PENDING),
          public_ip = [PyStr ''67.214.214.212'', PyStr ''67.214.214.213''],
          private_ip = [],
          extra = [(''storage'', PyInt 20), (''cpu'', PyFloat 0.5)],
          node_driver = drv\<rparr>"
  by (simp add: to_node_def sample_vm_def Let_def)

text \<open>
  C4. Every record that \<^verbatim>\<open>_to_node\<close> translates gets the state RUNNING when its status
  is the string "running" and PENDING for every other status, whether or not the
  provider documents it.
\<close>

theorem to_node_state:
  "to_node drv vm = Inr n \<Longrightarrow>
   state n = (if getitem vm ''status'' = Inr (PyStr ''running'') then RUNNING else PENDING)"
  by (auto simp: to_node_def Let_def split: sum.splits if_splits)

theorem to_node_state_witness:
  "(\<exists>n. to_node 0 (sample_vm ''running'') = Inr n \<and> state n = RUNNING) \<and>
   (\<exists>n. to_node 0 (sample_vm ''error'') = Inr n \<and> state n = PENDING) \<and>
   (\<exists>n. to_node 0 (sample_vm ''suspended'') = Inr n \<and> state n = PENDING)"
proof -
  have "\<exists>n. to_node 0 (sample_vm st) = Inr n \<and>
          state n = (if st = ''running'' then RUNNING else PENDING)" for st
  proof -
    obtain n where n: "to_node 0 (sample_vm st) = Inr n"
      by (simp add: to_node_sample)
    have "getitem (sample_vm st) ''status'' = Inr (PyStr st)"
      by (simp add: sample_vm_def)
    with to_node_state [OF n] have "state n = (if st = ''running'' then RUNNING else PENDING)"
      by simp
    with n show ?thesis by blast
  qed
  from this [of "''running''"] this [of "''error''"] this [of "''suspended''"]
  show ?thesis by simp
qed

text \<open>
  C10. Every record that \<^verbatim>\<open>_to_node\<close> translates gives a node with no private
  address, with the \<^verbatim>\<open>address\<close> of each element of the record's \<^verbatim>\<open>ips\<close>, in their
  order, as public addresses, and with an \<^verbatim>\<open>extra\<close> dictionary of exactly two keys,
  \<^verbatim>\<open>storage\<close> and \<^verbatim>\<open>cpu\<close>, bound to the record's own.
\<close>

theorem to_node_ips_extra:
  "to_node drv vm = Inr n \<Longrightarrow>
   private_ip n = [] \<and>
   (\<exists>v_ips ips. getitem vm ''ips'' = Inr v_ips \<and> py_iter v_ips = Inr ips \<and>
      map (\<lambda>i. getitem i ''address'') ips = map Inr (public_ip n)) \<and>
   (\<exists>v_storage v_cpu. getitem vm ''storage'' = Inr v_storage \<and>
      getitem vm ''cpu'' = Inr v_cpu \<and>
      extra n = [(''storage'', v_storage), (''cpu'', v_cpu)])"
  by (auto simp: to_node_def Let_def comprehension_map split: sum.splits)

theorem to_node_ips_extra_witness:
  "\<exists>n. to_node 0 (sample_vm ''running'') = Inr n \<and>
     private_ip n = [] \<and>
     public_ip n = [PyStr ''67.214.214.212'', PyStr ''67.214.214.213''] \<and>
     extra n = [(''storage'', PyInt 20), (''cpu'', PyFloat 0.5)]"
proof -
  obtain n where n: "to_node 0 (sample_vm ''running'') = Inr n"
    by (simp add: to_node_sample)
  from to_node_ips_extra [OF n] have "private_ip n = []"
    and "public_ip n = [PyStr ''67.214.214.212'', PyStr ''67.214.214.213'']"
    and "extra n = [(''storage'', PyInt 20), (''cpu'', PyFloat 0.5)]"
    by (auto simp: sample_vm_def)
  with n show ?thesis by blast
qed

subsection \<open>The state map\<close>

text \<open>
  C5. The name \<^verbatim>\<open>NODE_STATE_MAP\<close> is bound to a dictionary that has each of the five
  status strings of the provider as a key: "queued" and "building" give PENDING,
  "running" gives RUNNING, "error" gives TERMINATED and "unknown" gives UNKNOWN.
\<close>

theorem node_state_map_entries:
  "\<exists>m. load_global bluebox_module ''NODE_STATE_MAP'' = Inr m \<and>
     getitem m ''queued'' = Inr (PyState PENDING) \<and>
     getitem m ''building'' = Inr (PyState PENDING) \<and>
     getitem m ''running'' = Inr (PyState RUNNING) \<and>
     getitem m ''error'' = Inr (PyState TERMINATED) \<and>
     getitem m ''unknown'' = Inr (PyState UNKNOWN)"
  by (simp add: load_global_def bluebox_module_def)

subsection \<open>Interpretation of a response\<close>

lemma Response_init_401:
  "status r = 401 \<Longrightarrow>
   Response_init ext r =
     Inl (InvalidCredsError (if body r = [] then ''401: '' @ error r else body r))"
  by (simp add: Response_init_def success_def parse_error_def str_int_401)

lemma Response_init_200:
  "status r = 200 \<Longrightarrow>
   Response_init ext r =
     Inr \<lparr>resp_status = 200, resp_body = body r, resp_error = error r,
          object = parse_body ext r\<rparr>"
  by (simp add: Response_init_def success_def)

lemma Response_init_other:
  "status r \<noteq> 200 \<Longrightarrow> status r \<noteq> 401 \<Longrightarrow>
   Response_init ext r =
     Inr \<lparr>resp_status = status r, resp_body = body r, resp_error = error r,
          object = PyStr (body r)\<rparr>"
  by (simp add: Response_init_def success_def parse_error_def)

text \<open>
  C6. For a response with status 401, \<^verbatim>\<open>parse_error\<close> raises \<^verbatim>\<open>InvalidCredsError\<close>;
  the message is the body when the body is not empty, and "401: " followed by the
  error text when it is.
\<close>

theorem parse_error_401:
  "status r = 401 \<Longrightarrow>
   parse_error r =
     Inl (InvalidCredsError (if body r = [] then ''401: '' @ error r else body r))"
  by (simp add: parse_error_def str_int_401)

theorem parse_error_401_witness:
  "parse_error \<lparr>status = 401, body = [], error = ''Unauthorized''\<rparr> =
     Inl (InvalidCredsError ''401: Unauthorized'') \<and>
   parse_error \<lparr>status = 401, body = ''Bad credentials'', error = ''Unauthorized''\<rparr> =
     Inl (InvalidCredsError ''Bad credentials'')"
  using parse_error_401 [of "\<lparr>status = 401, body = [], error = ''Unauthorized''\<rparr>"]
    parse_error_401 [of "\<lparr>status = 401, body = ''Bad credentials'', error = ''Unauthorized''\<rparr>"]
  by simp

text \<open>
  The two methods on their own: \<^verbatim>\<open>parse_error\<close> returns the body for every status
  but 401, and \<^verbatim>\<open>parse_body\<close> returns the body itself when decoding fails.
\<close>

lemma parse_error_not_401:
  "status r \<noteq> 401 \<Longrightarrow> parse_error r = Inr (body r)"
  by (simp add: parse_error_def)

lemma parse_body_undecoded:
  "json_loads ext (body r) = None \<Longrightarrow> parse_body ext r = PyStr (body r)"
  by (simp add: parse_body_def)

lemma request_other_status:
  "transport ext
     \<lparr>req_path = action, req_method = method, req_data = data,
      req_headers = add_default_headers ext c headers\<rparr> = Inr r \<Longrightarrow>
   status r \<noteq> 200 \<Longrightarrow> status r \<noteq> 401 \<Longrightarrow>
   fst (request ext c action data headers method) =
     Inr \<lparr>resp_status = status r, resp_body = body r, resp_error = error r,
          object = PyStr (body r)\<rparr>"
  by (simp add: request_def Let_def Response_init_other)

text \<open>
  C8. For a response whose status is neither 200 nor 401, the interpretation of the
  response raises nothing: it gives a response object whose payload is the body as it
  was received, a string, whatever the decoder would make of it, so that a body that
  cannot be decoded is handed over verbatim.
\<close>

theorem other_status_payload_is_body:
  "status r \<noteq> 200 \<Longrightarrow> status r \<noteq> 401 \<Longrightarrow>
   (\<exists>resp. Response_init ext r = Inr resp \<and>
      object resp = PyStr (body r) \<and>
      resp_status resp = status r \<and> resp_body resp = body r \<and> resp_error resp = error r)"
  by (simp add: Response_init_def success_def parse_error_def)

theorem other_status_payload_is_body_witness:
  "Response_init (answering \<lparr>status = 200, body = [], error = ''OK''\<rparr>)
     \<lparr>status = 500, body = ''<html>oops</html>'', error = ''Server Error''\<rparr> =
     Inr \<lparr>resp_status = 500, resp_body = ''<html>oops</html>'', resp_error = ''Server Error'',
          object = PyStr ''<html>oops</html>''\<rparr> \<and>
   Response_init (answering \<lparr>status = 200, body = [], error = ''OK''\<rparr>)
     \<lparr>status = 404, body = ''[]'', error = ''Not Found''\<rparr> =
     Inr \<lparr>resp_status = 404, resp_body = ''[]'', resp_error = ''Not Found'',
          object = PyStr ''[]''\<rparr>"
proof -
  have "Response_init ext r =
      Inr \<lparr>resp_status = status r, resp_body = body r, resp_error = error r,
           object = PyStr (body r)\<rparr>"
    if "status r \<noteq> 200" and "status r \<noteq> 401" for ext r
  proof -
    from other_status_payload_is_body [OF that, of ext] obtain resp
      where "Response_init ext r = Inr resp" and "object resp = PyStr (body r)"
        and "resp_status resp = status r" and "resp_body resp = body r"
        and "resp_error resp = error r"
      by blast
    then show ?thesis by simp
  qed
  from this [of "\<lparr>status = 500, body = ''<html>oops</html>'', error = ''Server Error''\<rparr>"
               "answering \<lparr>status = 200, body = [], error = ''OK''\<rparr>"]
    this [of "\<lparr>status = 404, body = ''[]'', error = ''Not Found''\<rparr>"
             "answering \<lparr>status = 200, body = [], error = ''OK''\<rparr>"]
  show ?thesis by simp
qed

subsection \<open>Authentication header\<close>

text \<open>
  C9. Whatever the headers of the caller, \<^verbatim>\<open>add_default_headers\<close> returns headers whose
  \<^verbatim>\<open>Authorization\<close> is "Basic " followed by the base64 encoding of the identity, a
  colon and the secret key; a value the caller gave for that header is replaced.
\<close>

theorem add_default_headers_authorization:
  "map_of (add_default_headers ext c headers) ''Authorization'' =
     Some (''Basic '' @ b64encode ext (user_id c @ '':'' @ key c))"
  by (simp add: add_default_headers_def map_of_setitem)

text \<open>The other headers of the caller are kept, and the request on the wire carries the header.\<close>

lemma add_default_headers_others:
  "k \<noteq> ''Authorization'' \<Longrightarrow>
   map_of (add_default_headers ext c headers) k = map_of headers k"
  by (simp add: add_default_headers_def map_of_setitem)

lemma request_authorization:
  "\<exists>rq. snd (request ext c action data headers method) = [rq] \<and>
     req_path rq = action \<and> req_method rq = method \<and>
     map_of (req_headers rq) ''Authorization'' =
       Some (''Basic '' @ b64encode ext (user_id c @ '':'' @ key c))"
  by (simp add: request_sent add_default_headers_def map_of_setitem)

subsection \<open>Result of destroy\<close>

lemma destroy_node_result:
  "transport ext
     \<lparr>req_path = ''/api/blocks/#{node.id}.json'', req_method = ''DELETE'', req_data = None,
      req_headers = add_default_headers ext c []\<rparr> = Inr r \<Longrightarrow>
   fst (destroy_node ext c node) =
     (case Response_init ext r of Inl e \<Rightarrow> Inl e | Inr result \<Rightarrow> Inr (resp_status result = 200))"
  by (simp add: destroy_node_def request_def Let_def split: sum.splits)

text \<open>
  C7, amended. When the transport answers the request of \<^verbatim>\<open>destroy_node\<close> with a
  response, the method returns true for status 200, raises \<^verbatim>\<open>InvalidCredsError\<close> for
  status 401, and returns false, raising nothing, for every other status.
\<close>

theorem destroy_node_status:
  "snd (destroy_node ext c node) = [rq] \<Longrightarrow> transport ext rq = Inr r \<Longrightarrow>
   fst (destroy_node ext c node) =
     (if status r = 401
      then Inl (InvalidCredsError (if body r = [] then ''401: '' @ error r else body r))
      else Inr (status r = 200))"
proof -
  assume sent: "snd (destroy_node ext c node) = [rq]" and answer: "transport ext rq = Inr r"
  from sent have "rq = \<lparr>req_path = ''/api/blocks/#{node.id}.json'', req_method = ''DELETE'',
      req_data = None, req_headers = add_default_headers ext c []\<rparr>"
    by (simp add: destroy_node_sent request_sent)
  with answer have res: "fst (destroy_node ext c node) =
      (case Response_init ext r of Inl e \<Rightarrow> Inl e | Inr result \<Rightarrow> Inr (resp_status result = 200))"
    by (simp add: destroy_node_result)
  consider "status r = 401" | "status r = 200" | "status r \<noteq> 200" "status r \<noteq> 401"
    by blast
  then show ?thesis
  proof cases
    case 1
    with res show ?thesis by (simp add: Response_init_401)
  next
    case 2
    with res show ?thesis by (simp add: Response_init_200)
  next
    case 3
    with res show ?thesis by (simp add: Response_init_other)
  qed
qed

theorem destroy_node_status_witness:
  "fst (destroy_node (answering \<lparr>status = 200, body = [], error = ''OK''\<rparr>)
          sample_connection (sample_node ''99df878c'')) = Inr True \<and>
   fst (destroy_node (answering \<lparr>status = 404, body = ''no such block'', error = ''Not Found''\<rparr>)
          sample_connection (sample_node ''99df878c'')) = Inr False"
proof -
  have sent: "\<exists>rq. snd (destroy_node (answering r) sample_connection (sample_node ''99df878c''))
      = [rq] \<and> transport (answering r) rq = Inr r" for r
    by (simp add: destroy_node_sent request_sent answering_def answer_def)
  from sent [of "\<lparr>status = 200, body = [], error = ''OK''\<rparr>"]
  obtain rq1 where
    "snd (destroy_node (answering \<lparr>status = 200, body = [], error = ''OK''\<rparr>)
       sample_connection (sample_node ''99df878c'')) = [rq1]"
    "transport (answering \<lparr>status = 200, body = [], error = ''OK''\<rparr>) rq1 =
       Inr \<lparr>status = 200, body = [], error = ''OK''\<rparr>"
    by blast
  from destroy_node_status [OF this] have one:
    "fst (destroy_node (answering \<lparr>status = 200, body = [], error = ''OK''\<rparr>)
          sample_connection (sample_node ''99df878c'')) = Inr True"
    by simp
  from sent [of "\<lparr>status = 404, body = ''no such block'', error = ''Not Found''\<rparr>"]
  obtain rq2 where
    "snd (destroy_node (answering \<lparr>status = 404, body = ''no such block'', error = ''Not Found''\<rparr>)
       sample_connection (sample_node ''99df878c'')) = [rq2]"
    "transport (answering \<lparr>status = 404, body = ''no such block'', error = ''Not Found''\<rparr>) rq2 =
       Inr \<lparr>status = 404, body = ''no such block'', error = ''Not Found''\<rparr>"
    by blast
  from destroy_node_status [OF this] have two:
    "fst (destroy_node (answering \<lparr>status = 404, body = ''no such block'', error = ''Not Found''\<rparr>)
          sample_connection (sample_node ''99df878c'')) = Inr False"
    by simp
  from one two show ?thesis by blast
qed

text \<open>
  C7 as stated fails at status 401: the call does not return false, it raises.
\<close>

theorem destroy_node_401_raises:
  "fst (destroy_node (answering \<lparr>status = 401, body = [], error = ''Unauthorized''\<rparr>)
          sample_connection (sample_node ''99df878c'')) =
     Inl (InvalidCredsError ''401: Unauthorized'')"
  by (simp add: destroy_node_def request_def Let_def answering_def answer_def
        Response_init_401)

end
